theory Spec2Isabelle
  imports Main
begin

section \<open>Model loading of aiai\_eval: data\<close>

text \<open>
  The development embeds \<^verbatim>\<open>src/aiai_eval/model_loading.py\<close> and the exception classes of
  \<^verbatim>\<open>src/aiai_eval/exceptions.py\<close> that it raises. The module is glue around the
  transformers and spaCy libraries; every library call is a field of the record
  \<open>env\<close> below, so that each theorem holds for whatever the libraries answer.
\<close>

subsection \<open>Configuration objects\<close>

text \<open>
  Modelled from the spec: \<^verbatim>\<open>enums.py\<close> is not among the sources. The loader compares
  the framework tag with the three members \<^verbatim>\<open>PYTORCH\<close>, \<^verbatim>\<open>JAX\<close> and \<^verbatim>\<open>SPACY\<close>; any other
  value that a caller stores in the field is \<open>OtherFramework\<close>, tagged by a name.
\<close>

datatype Framework = PYTORCH | JAX | SPACY | OtherFramework string

text \<open>
  Modelled from the spec: \<^verbatim>\<open>config.py\<close> is not among the sources. The three configuration
  classes are records of exactly the attributes that \<^verbatim>\<open>model_loading.py\<close> reads or writes.
\<close>

datatype auth_token = AuthFlag bool | AuthToken string

record ModelConfig =
  model_id :: string
  revision :: string
  framework :: Framework

record TaskConfig =
  supertask :: string

record EvaluationConfig =
  use_auth_token :: auth_token
  cache_dir :: string
  device :: string

subsection \<open>Library objects\<close>

text \<open>
  A loaded model is an object with an identity, a class and a mutable state. The calls
  that work on it in place (\<^verbatim>\<open>adjust_model_to_task\<close>, \<^verbatim>\<open>model.eval()\<close>,
  \<^verbatim>\<open>model.to(device)\<close>) can replace the state only: a callee cannot rebind the
  caller's variable \<^verbatim>\<open>model\<close>.
\<close>

record model =
  obj_id :: nat
  cls_name :: string
  mstate :: nat

text \<open>The configuration returned by \<^verbatim>\<open>AutoConfig.from_pretrained\<close>.\<close>

record PretrainedConfig =
  architectures :: "string list option"
  config_rest :: nat

text \<open>
  An attribute of an object that may be missing (\<^verbatim>\<open>hasattr\<close> is then false).
\<close>

datatype 'a attribute = Missing | Has 'a

text \<open>
  A tokenizer. A length is an integer or Python's \<^verbatim>\<open>None\<close> (\<open>None\<close> here as well):
  the transformers library registers \<^verbatim>\<open>None\<close> as the input size of the checkpoints
  without a fixed limit. \<^verbatim>\<open>max_model_input_sizes\<close> is a dict, kept as the list of its
  items.
\<close>

record tokenizer =
  model_max_length :: "int option attribute"
  max_model_input_sizes :: "(string \<times> int option) list attribute"
  tok_rest :: nat

datatype artifact = Model model | Tokenizer tokenizer

type_synonym artifacts = "string \<rightharpoonup> artifact"

subsection \<open>Exceptions\<close>

text \<open>
  \<open>OSError\<close> and \<open>ValueError\<close> stand for the class and all its subclasses and carry
  \<^verbatim>\<open>str(e)\<close>; \<open>CalledProcessError\<close> carries \<^verbatim>\<open>e.output\<close>; \<open>TypeError\<close> is what an
  order comparison with \<^verbatim>\<open>None\<close> raises. The three project
  exceptions carry the attributes that their \<^verbatim>\<open>__init__\<close> stores.
\<close>

datatype exn =
    OSError string
  | ValueError string
  | CalledProcessError string
  | IndexError
  | TypeError
  | OtherException string
  | InvalidEvaluation (ie_message: string)
  | ModelFetchFailed (mff_model_id: string) (mff_error_msg: string) (mff_message: string)
  | InvalidFramework (if_framework: Framework) (if_message: string)

text \<open>\<^verbatim>\<open>exceptions.py\<close>, lines 6-11.\<close>

definition InvalidEvaluation_init :: "string \<Rightarrow> exn" where
  "InvalidEvaluation_init message = InvalidEvaluation message"

text \<open>\<^verbatim>\<open>exceptions.py\<close>, lines 24-34. A string is false in a condition when it is empty.\<close>

definition ModelFetchFailed_init :: "string \<Rightarrow> string \<Rightarrow> string \<Rightarrow> exn" where
  "ModelFetchFailed_init the_model_id error_msg message =
     ModelFetchFailed the_model_id error_msg
       (if message \<noteq> [] then message
        else ''Download of '' @ the_model_id @ '' from the Hugging Face Hub failed, with ''
             @ ''the following error message: '' @ error_msg @ ''.'')"

subsection \<open>The libraries\<close>

text \<open>
  One field for each call that leaves the module. A call answers with an exception
  (\<open>Inl\<close>) or a value (\<open>Inr\<close>). Each of them is made at most once in a run of
  \<^verbatim>\<open>load_model\<close>, so a fixed answer for each argument covers every run.
  \<^verbatim>\<open>adjust_model_to_task\<close> receives the model configuration object and may write to
  it: it answers with the configuration as it leaves it, and with the new state of the
  model. \<open>format_framework\<close> is \<^verbatim>\<open>str\<close> on a framework tag, used by the f-string of
  \<^verbatim>\<open>InvalidFramework\<close>.
\<close>

record env =
  AutoConfig_from_pretrained :: "string \<Rightarrow> string \<Rightarrow> auth_token \<Rightarrow> exn + PretrainedConfig"
  check_supertask :: "string list option \<Rightarrow> string \<Rightarrow> exn + unit"
  get_class_by_name :: "string \<Rightarrow> string \<Rightarrow> exn + string option"
  model_cls_from_pretrained ::
    "string \<Rightarrow> string \<Rightarrow> string \<Rightarrow> auth_token \<Rightarrow> PretrainedConfig \<Rightarrow> string \<Rightarrow> bool \<Rightarrow> exn + model"
  adjust_model_to_task :: "model \<Rightarrow> ModelConfig \<Rightarrow> TaskConfig \<Rightarrow> ModelConfig \<times> (exn + nat)"
  AutoTokenizer_from_pretrained ::
    "string \<Rightarrow> string \<Rightarrow> auth_token \<Rightarrow> (string \<times> bool) list \<Rightarrow> exn + tokenizer"
  model_eval :: "model \<Rightarrow> exn + nat"
  model_to :: "model \<Rightarrow> string \<Rightarrow> exn + nat"
  is_module_installed :: "string \<Rightarrow> exn + bool"
  subprocess_run :: "string list \<Rightarrow> exn + unit"
  spacy_load :: "string \<Rightarrow> exn + model"
  format_framework :: "Framework \<Rightarrow> string"

text \<open>The calls a run makes, in order, with their arguments.\<close>

datatype event =
    Call_AutoConfig_from_pretrained string string auth_token
  | Call_check_supertask "string list option" string
  | Call_get_class_by_name string string
  | Call_model_cls_from_pretrained string string string auth_token PretrainedConfig string bool
  | Call_adjust_model_to_task model ModelConfig TaskConfig
  | Call_AutoTokenizer_from_pretrained string string auth_token "(string \<times> bool) list"
  | Call_model_eval model
  | Call_model_to model string
  | Call_is_module_installed string
  | Call_subprocess_run "string list"
  | Call_spacy_load string

text \<open>
  What a run of \<^verbatim>\<open>load_model\<close> or \<^verbatim>\<open>load_pytorch_model\<close> leaves: the calls made, the
  model configuration object as the caller finds it afterwards, and the exception raised
  or the dictionary returned.
\<close>

record run =
  calls :: "event list"
  config_after :: ModelConfig
  returned :: "exn + artifacts"

text \<open>\<^verbatim>\<open>exceptions.py\<close>, lines 37-41.\<close>

definition InvalidFramework_init :: "env \<Rightarrow> Framework \<Rightarrow> exn" where
  "InvalidFramework_init env fw =
     InvalidFramework fw (''The framework '' @ format_framework env fw @ '' is not supported.'')"

section \<open>Python primitives\<close>

text \<open>\<^verbatim>\<open>needle in haystack\<close> on strings.\<close>

fun py_in :: "string \<Rightarrow> string \<Rightarrow> bool" where
  "py_in needle [] = (needle = [])"
| "py_in needle (c # cs) = (take (length needle) (c # cs) = needle \<or> py_in needle cs)"

text \<open>\<^verbatim>\<open>s.split(sep)\<close> for a separator of one character.\<close>

fun py_split :: "char \<Rightarrow> string \<Rightarrow> string list" where
  "py_split sep [] = [[]]"
| "py_split sep (c # cs) =
     (if c = sep then [] # py_split sep cs
      else (case py_split sep cs of [] \<Rightarrow> [[c]] | w # ws \<Rightarrow> (c # w) # ws))"

text \<open>\<^verbatim>\<open>xs[-1]\<close>, which raises \<^verbatim>\<open>IndexError\<close> on the empty list.\<close>

definition py_last :: "'a list \<Rightarrow> exn + 'a" where
  "py_last xs = (if xs = [] then Inl IndexError else Inr (last xs))"

text \<open>
  \<^verbatim>\<open>a < b\<close> and \<^verbatim>\<open>a > b\<close> on values that are integers or \<^verbatim>\<open>None\<close>: a comparison
  with \<^verbatim>\<open>None\<close> raises \<^verbatim>\<open>TypeError\<close>.
\<close>

fun py_less :: "int option \<Rightarrow> int option \<Rightarrow> exn + bool" where
  "py_less (Some a) (Some b) = Inr (a < b)"
| "py_less _ _ = Inl TypeError"

definition py_greater :: "int option \<Rightarrow> int option \<Rightarrow> exn + bool" where
  "py_greater a b = py_less b a"

text \<open>
  \<^verbatim>\<open>min(xs)\<close> on a list: the first item is the candidate, and every later item is
  compared with the candidate (\<^verbatim>\<open>item < candidate\<close>) and replaces it when smaller. The
  empty list raises \<^verbatim>\<open>ValueError\<close>; a list of one item is not compared at all.
\<close>

fun py_min_from :: "int option \<Rightarrow> int option list \<Rightarrow> exn + int option" where
  "py_min_from candidate [] = Inr candidate"
| "py_min_from candidate (item # items) =
     (case py_less item candidate of
        Inl e \<Rightarrow> Inl e
      | Inr smaller \<Rightarrow> py_min_from (if smaller then item else candidate) items)"

fun py_min :: "int option list \<Rightarrow> exn + int option" where
  "py_min [] = Inl (ValueError ''min() arg is an empty sequence'')"
| "py_min (item # items) = py_min_from item items"

section \<open>The loaders\<close>

subsection \<open>\<^verbatim>\<open>load_pytorch_model\<close>\<close>

text \<open>
  Lines 102-134, the body of the \<^verbatim>\<open>try\<close> statement: the configuration is fetched, the
  supertask checked, the model class looked up (a missing class raises
  \<^verbatim>\<open>InvalidEvaluation\<close> from inside the body) and the model instantiated. The first
  call that raises ends the body.
\<close>

definition load_pytorch_model_try_body ::
  "env \<Rightarrow> ModelConfig \<Rightarrow> bool \<Rightarrow> TaskConfig \<Rightarrow> EvaluationConfig \<Rightarrow> event list \<times> (exn + model)" where
  "load_pytorch_model_try_body env model_config from_flax task_config evaluation_config =
     (let c1 = Call_AutoConfig_from_pretrained (model_id model_config) (revision model_config)
                 (use_auth_token evaluation_config)
      in case AutoConfig_from_pretrained env (model_id model_config) (revision model_config)
                (use_auth_token evaluation_config) of
           Inl e \<Rightarrow> ([c1], Inl e)
         | Inr config \<Rightarrow>
             (let the_supertask = supertask task_config;
                  c2 = Call_check_supertask (architectures config) the_supertask
              in case check_supertask env (architectures config) the_supertask of
                   Inl e \<Rightarrow> ([c1, c2], Inl e)
                 | Inr _ \<Rightarrow>
                     (let class_name = ''auto-model-for-'' @ the_supertask;
                          c3 = Call_get_class_by_name class_name ''transformers''
                      in case get_class_by_name env class_name ''transformers'' of
                           Inl e \<Rightarrow> ([c1, c2, c3], Inl e)
                         | Inr None \<Rightarrow>
                             ([c1, c2, c3],
                              Inl (InvalidEvaluation_init
                                (''The supertask '' @ [CHR 0x27] @ the_supertask @ [CHR 0x27]
                                 @ '' does not correspond to a Hugging Face ''
                                 @ '' AutoModel type (such as `AutoModelForSequenceClassification`).'')))
                         | Inr (Some model_cls) \<Rightarrow>
                             (let c4 = Call_model_cls_from_pretrained model_cls
                                         (model_id model_config) (revision model_config)
                                         (use_auth_token evaluation_config) config
                                         (cache_dir evaluation_config) from_flax
                              in ([c1, c2, c3, c4],
                                  model_cls_from_pretrained env model_cls
                                    (model_id model_config) (revision model_config)
                                    (use_auth_token evaluation_config) config
                                    (cache_dir evaluation_config) from_flax)))))"

text \<open>Lines 137-143, the clause \<^verbatim>\<open>except (OSError, ValueError)\<close>: any other exception passes.\<close>

fun except_OSError_ValueError :: "ModelConfig \<Rightarrow> exn \<Rightarrow> exn" where
  "except_OSError_ValueError model_config (OSError _) =
     InvalidEvaluation_init
       (''The model '' @ model_id model_config @ '' either does not have a frameworks ''
        @ ''registered, or it is a private model. If it is a private model then ''
        @ ''enable the `--use-auth-token` flag and make  sure that you are ''
        @ ''logged in to the Hub via the `huggingface-cli login` command.'')"
| "except_OSError_ValueError model_config (ValueError _) =
     InvalidEvaluation_init
       (''The model '' @ model_id model_config @ '' either does not have a frameworks ''
        @ ''registered, or it is a private model. If it is a private model then ''
        @ ''enable the `--use-auth-token` flag and make  sure that you are ''
        @ ''logged in to the Hub via the `huggingface-cli login` command.'')"
| "except_OSError_ValueError model_config e = e"

text \<open>Lines 101-143, the whole \<^verbatim>\<open>try\<close> statement.\<close>

definition load_pytorch_model_try ::
  "env \<Rightarrow> ModelConfig \<Rightarrow> bool \<Rightarrow> TaskConfig \<Rightarrow> EvaluationConfig \<Rightarrow> event list \<times> (exn + model)" where
  "load_pytorch_model_try env model_config from_flax task_config evaluation_config =
     (case load_pytorch_model_try_body env model_config from_flax task_config evaluation_config of
        (cs, Inl e) \<Rightarrow> (cs, Inl (except_OSError_ValueError model_config e))
      | (cs, Inr the_model) \<Rightarrow> (cs, Inr the_model))"

text \<open>Lines 155-156: the keyword arguments of the tokenizer loader.\<close>

definition tokenizer_params :: "model \<Rightarrow> (string \<times> bool) list" where
  "tokenizer_params the_model =
     (let prefix = py_in ''Roberta'' (cls_name the_model)
      in [(''use_fast'', True), (''add_prefix_space'', prefix)])"

text \<open>
  Lines 166-176: the maximal length of the tokenizer. The condition of line 166 compares
  the attribute, when it is there, with 1000; line 171 takes the minimum of the values of
  the dict. Both raise \<^verbatim>\<open>TypeError\<close> on \<^verbatim>\<open>None\<close>.
\<close>

definition set_model_max_length :: "tokenizer \<Rightarrow> exn + tokenizer" where
  "set_model_max_length tok =
     (case (case model_max_length tok of
              Missing \<Rightarrow> Inr True
            | Has v \<Rightarrow> py_greater v (Some 1000)) of
        Inl e \<Rightarrow> Inl e
      | Inr too_large \<Rightarrow>
          if too_large then
            (case max_model_input_sizes tok of
               Has sizes \<Rightarrow>
                 (let all_max_lengths = map snd sizes
                  in if length all_max_lengths > 0
                     then (case py_min all_max_lengths of
                             Inl e \<Rightarrow> Inl e
                           | Inr min_max_length \<Rightarrow>
                               Inr (tok\<lparr>model_max_length := Has min_max_length\<rparr>))
                     else Inr (tok\<lparr>model_max_length := Has (Some 512)\<rparr>))
             | Missing \<Rightarrow> Inr (tok\<lparr>model_max_length := Has (Some 512)\<rparr>))
          else Inr tok)"

text \<open>Lines 71-184.\<close>

definition load_pytorch_model ::
  "env \<Rightarrow> ModelConfig \<Rightarrow> bool \<Rightarrow> TaskConfig \<Rightarrow> EvaluationConfig \<Rightarrow> run" where
  "load_pytorch_model env model_config from_flax task_config evaluation_config =
     (case load_pytorch_model_try env model_config from_flax task_config evaluation_config of
        (cs1, Inl e) \<Rightarrow> \<lparr>calls = cs1, config_after = model_config, returned = Inl e\<rparr>
      | (cs1, Inr model0) \<Rightarrow>
          (let cs2 = cs1 @ [Call_adjust_model_to_task model0 model_config task_config]
           in case adjust_model_to_task env model0 model_config task_config of
                (model_config1, Inl e) \<Rightarrow>
                  \<lparr>calls = cs2, config_after = model_config1, returned = Inl e\<rparr>
              | (model_config1, Inr s1) \<Rightarrow>
                  (let model1 = model0\<lparr>mstate := s1\<rparr>;
                       m_id = model_id model_config1;
                       params = tokenizer_params model1;
                       cs3 = cs2 @ [Call_AutoTokenizer_from_pretrained m_id
                                      (revision model_config1)
                                      (use_auth_token evaluation_config) params]
                   in case AutoTokenizer_from_pretrained env m_id (revision model_config1)
                             (use_auth_token evaluation_config) params of
                        Inl e \<Rightarrow> \<lparr>calls = cs3, config_after = model_config1, returned = Inl e\<rparr>
                      | Inr tokenizer0 \<Rightarrow>
                          (case set_model_max_length tokenizer0 of
                             Inl e \<Rightarrow>
                               \<lparr>calls = cs3, config_after = model_config1, returned = Inl e\<rparr>
                           | Inr tokenizer1 \<Rightarrow>
                               (let cs4 = cs3 @ [Call_model_eval model1]
                                in case model_eval env model1 of
                                     Inl e \<Rightarrow>
                                       \<lparr>calls = cs4, config_after = model_config1,
                                        returned = Inl e\<rparr>
                                   | Inr s2 \<Rightarrow>
                                       (let model2 = model1\<lparr>mstate := s2\<rparr>;
                                            cs5 = cs4 @ [Call_model_to model2
                                                          (device evaluation_config)]
                                        in case model_to env model2 (device evaluation_config) of
                                             Inl e \<Rightarrow>
                                               \<lparr>calls = cs5, config_after = model_config1,
                                                returned = Inl e\<rparr>
                                           | Inr s3 \<Rightarrow>
                                               \<lparr>calls = cs5, config_after = model_config1,
                                                returned =
                                                  Inr [''model'' \<mapsto> Model (model2\<lparr>mstate := s3\<rparr>),
                                                       ''tokenizer'' \<mapsto> Tokenizer tokenizer1]\<rparr>))))))"

subsection \<open>\<^verbatim>\<open>load_spacy_model\<close>\<close>

text \<open>Lines 208-213, the body of the first \<^verbatim>\<open>try\<close> statement.\<close>

definition load_spacy_model_install_body ::
  "env \<Rightarrow> string \<Rightarrow> string \<Rightarrow> event list \<times> (exn + unit)" where
  "load_spacy_model_install_body env the_model_id local_model_id =
     (let c1 = Call_is_module_installed local_model_id
      in case is_module_installed env local_model_id of
           Inl e \<Rightarrow> ([c1], Inl e)
         | Inr installed \<Rightarrow>
             if \<not> installed then
               (let url = ''https://huggingface.co/'' @ the_model_id @ ''/resolve/main/''
                          @ local_model_id @ ''-'' @ ''any-py3-none-any.whl'';
                    args = [''pip3'', ''install'', url]
                in case subprocess_run env args of
                     Inl e \<Rightarrow> ([c1, Call_subprocess_run args], Inl e)
                   | Inr _ \<Rightarrow> ([c1, Call_subprocess_run args], Inr ()))
             else ([c1], Inr ()))"

text \<open>Lines 215-216, the clause \<^verbatim>\<open>except CalledProcessError as e\<close>.\<close>

fun except_CalledProcessError :: "string \<Rightarrow> exn \<Rightarrow> exn" where
  "except_CalledProcessError local_model_id (CalledProcessError output) =
     ModelFetchFailed_init local_model_id output []"
| "except_CalledProcessError local_model_id e = e"

text \<open>Lines 221-229, the clause \<^verbatim>\<open>except OSError as e\<close> around \<^verbatim>\<open>spacy.load\<close>.\<close>

fun except_OSError :: "string \<Rightarrow> exn \<Rightarrow> exn" where
  "except_OSError the_model_id (OSError str_e) =
     ModelFetchFailed_init the_model_id str_e
       (''Download of '' @ the_model_id @ '' failed, with the following error message: ''
        @ str_e @ ''.'')"
| "except_OSError the_model_id e = e"

text \<open>Lines 187-230.\<close>

definition load_spacy_model :: "env \<Rightarrow> string \<Rightarrow> event list \<times> (exn + artifacts)" where
  "load_spacy_model env the_model_id =
     (case py_last (py_split CHR ''/'' the_model_id) of
        Inl e \<Rightarrow> ([], Inl e)
      | Inr local_model_id \<Rightarrow>
          (case load_spacy_model_install_body env the_model_id local_model_id of
             (cs1, Inl e) \<Rightarrow> (cs1, Inl (except_CalledProcessError local_model_id e))
           | (cs1, Inr _) \<Rightarrow>
               (let cs2 = cs1 @ [Call_spacy_load local_model_id]
                in case spacy_load env local_model_id of
                     Inl e \<Rightarrow> (cs2, Inl (except_OSError the_model_id e))
                   | Inr the_model \<Rightarrow> (cs2, Inr [''model'' \<mapsto> Model the_model]))))"

subsection \<open>\<^verbatim>\<open>load_model\<close>\<close>

text \<open>
  Lines 23-68. Line 54 writes to the configuration object of the caller; the written
  object is the one handed on and the one the caller finds afterwards.
\<close>

definition load_model :: "env \<Rightarrow> ModelConfig \<Rightarrow> TaskConfig \<Rightarrow> EvaluationConfig \<Rightarrow> run" where
  "load_model env model_config task_config evaluation_config =
     (let from_flax = (framework model_config = JAX);
          model_config = (if framework model_config = JAX
                          then model_config\<lparr>framework := PYTORCH\<rparr> else model_config)
      in if framework model_config = PYTORCH then
           load_pytorch_model env model_config from_flax task_config evaluation_config
         else if framework model_config = SPACY then
           (case load_spacy_model env (model_id model_config) of
              (cs, r) \<Rightarrow> \<lparr>calls = cs, config_after = model_config, returned = r\<rparr>)
         else \<lparr>calls = [], config_after = model_config,
               returned = Inl (InvalidFramework_init env (framework model_config))\<rparr>)"

section \<open>Vocabulary of the statements\<close>

text \<open>
  The calls that only \<^verbatim>\<open>load_spacy_model\<close> makes.
\<close>

fun is_spacy_call :: "event \<Rightarrow> bool" where
  "is_spacy_call (Call_is_module_installed _) = True"
| "is_spacy_call (Call_subprocess_run _) = True"
| "is_spacy_call (Call_spacy_load _) = True"
| "is_spacy_call _ = False"

text \<open>
  The message of the \<^verbatim>\<open>InvalidEvaluation\<close> raised at lines 138-143, as one string.
\<close>

definition private_model_message :: "string \<Rightarrow> string" where
  "private_model_message mid =
     ''The model '' @ mid @ '' either does not have a frameworks registered, or it is a private model. If it is a private model then enable the `--use-auth-token` flag and make  sure that you are logged in to the Hub via the `huggingface-cli login` command.''"

section \<open>An example environment\<close>

text \<open>
  Concrete answers of the libraries and concrete configurations, on which the theorems
  below are run.
\<close>

definition example_env :: env where
  "example_env =
     \<lparr>AutoConfig_from_pretrained =
        (\<lambda>m r t. Inr \<lparr>architectures = Some [''RobertaForSequenceClassification''], config_rest = 0\<rparr>),
      check_supertask = (\<lambda>a s. Inr ()),
      get_class_by_name = (\<lambda>c m. Inr (Some ''AutoModelForSequenceClassification'')),
      model_cls_from_pretrained =
        (\<lambda>cls m r t c d f.
           Inr \<lparr>obj_id = 1, cls_name = ''XLMRobertaForSequenceClassification'', mstate = 0\<rparr>),
      adjust_model_to_task = (\<lambda>m c t. (c, Inr 1)),
      AutoTokenizer_from_pretrained =
        (\<lambda>m r t ps.
           Inr \<lparr>model_max_length = Has (Some 1000000000000000019884624838656),
                max_model_input_sizes =
                  Has [(''roberta-base'', Some 512), (''roberta-large'', Some 514)],
                tok_rest = 0\<rparr>),
      model_eval = (\<lambda>m. Inr 2),
      model_to = (\<lambda>m d. Inr 3),
      is_module_installed = (\<lambda>n. Inr False),
      subprocess_run = (\<lambda>args. Inr ()),
      spacy_load = (\<lambda>n. Inr \<lparr>obj_id = 2, cls_name = ''Danish'', mstate = 0\<rparr>),
      format_framework =
        (\<lambda>f. case f of PYTORCH \<Rightarrow> ''pytorch'' | JAX \<Rightarrow> ''jax'' | SPACY \<Rightarrow> ''spacy''
              | OtherFramework n \<Rightarrow> n)\<rparr>"

definition example_model_config :: "Framework \<Rightarrow> ModelConfig" where
  "example_model_config fw = \<lparr>model_id = ''org/da_core'', revision = ''main'', framework = fw\<rparr>"

definition example_task_config :: TaskConfig where
  "example_task_config = \<lparr>supertask = ''sequence-classification''\<rparr>"

definition example_evaluation_config :: EvaluationConfig where
  "example_evaluation_config =
     \<lparr>use_auth_token = AuthFlag False, cache_dir = ''.cache'', device = ''cpu''\<rparr>"

text \<open>
  The same libraries when the hub cannot be reached during model instantiation, when
  the installer of the wheel fails, and when spaCy does not find the package.
\<close>

definition example_env_hub_down :: env where
  "example_env_hub_down =
     example_env\<lparr>model_cls_from_pretrained :=
       (\<lambda>cls m r t c d f. Inl (OSError ''Connection error''))\<rparr>"

definition example_env_pip_fails :: env where
  "example_env_pip_fails =
     example_env\<lparr>subprocess_run := (\<lambda>args. Inl (CalledProcessError ''ERROR: 404 Not Found''))\<rparr>"

definition example_env_no_package :: env where
  "example_env_no_package =
     example_env\<lparr>spacy_load := (\<lambda>n. Inl (OSError ''[E050] Cannot find model''))\<rparr>"

text \<open>
  The same libraries when the tokenizer is the one of an XLNet checkpoint, whose input
  sizes are registered as \<^verbatim>\<open>None\<close>.
\<close>

definition example_env_xlnet :: env where
  "example_env_xlnet =
     example_env
       \<lparr>AutoConfig_from_pretrained :=
          (\<lambda>m r t. Inr \<lparr>architectures = Some [''XLNetLMHeadModel''], config_rest = 0\<rparr>),
        model_cls_from_pretrained :=
          (\<lambda>cls m r t c d f.
             Inr \<lparr>obj_id = 1, cls_name = ''XLNetForSequenceClassification'', mstate = 0\<rparr>),
        AutoTokenizer_from_pretrained :=
          (\<lambda>m r t ps.
             Inr \<lparr>model_max_length = Has (Some 1000000000000000019884624838656),
                  max_model_input_sizes =
                    Has [(''xlnet-base-cased'', None), (''xlnet-large-cased'', None)],
                  tok_rest = 0\<rparr>)\<rparr>"

definition example_xlnet_model_config :: ModelConfig where
  "example_xlnet_model_config =
     \<lparr>model_id = ''xlnet-base-cased'', revision = ''main'', framework = PYTORCH\<rparr>"

section \<open>Auxiliary facts\<close>

lemmas example_defs = example_env_def example_model_config_def example_task_config_def
  example_evaluation_config_def

lemmas loader_defs = load_model_def load_pytorch_model_def load_pytorch_model_try_def
  load_pytorch_model_try_body_def load_spacy_model_def load_spacy_model_install_body_def
  tokenizer_params_def set_model_max_length_def py_greater_def py_last_def
  InvalidFramework_init_def
  ModelFetchFailed_init_def InvalidEvaluation_init_def Let_def

subsection \<open>Strings\<close>

lemma py_in_iff: "py_in needle hay \<longleftrightarrow> (\<exists>pre suf. hay = pre @ needle @ suf)"
proof (induction hay)
  case Nil
  then show ?case by auto
next
  case (Cons c cs)
  show ?case
  proof
    assume "py_in needle (c # cs)"
    then consider "take (length needle) (c # cs) = needle" | "py_in needle cs" by auto
    then show "\<exists>pre suf. c # cs = pre @ needle @ suf"
    proof cases
      case 1
      then have "c # cs = [] @ needle @ drop (length needle) (c # cs)"
        by (metis append_Nil append_take_drop_id)
      then show ?thesis by blast
    next
      case 2
      then obtain pre suf where "cs = pre @ needle @ suf" using Cons.IH by blast
      then have "c # cs = (c # pre) @ needle @ suf" by simp
      then show ?thesis by blast
    qed
  next
    assume "\<exists>pre suf. c # cs = pre @ needle @ suf"
    then obtain pre suf where eq: "c # cs = pre @ needle @ suf" by blast
    show "py_in needle (c # cs)"
    proof (cases pre)
      case Nil
      then have "take (length needle) (c # cs) = needle" using eq by simp
      then show ?thesis by simp
    next
      case (Cons p ps)
      then have "cs = ps @ needle @ suf" using eq by simp
      then have "py_in needle cs" using Cons.IH by blast
      then show ?thesis by simp
    qed
  qed
qed

lemma py_split_not_Nil: "py_split sep s \<noteq> []"
  by (induction s) (auto split: list.splits)

lemma last_py_split_no_sep: "sep \<notin> set (last (py_split sep s))"
  by (induction s) (auto simp: py_split_not_Nil split: list.splits)

lemma last_py_split_decomp:
  "\<exists>pre. s = pre @ last (py_split sep s) \<and>
     (if length (py_split sep s) = 1 then pre = [] else pre \<noteq> [] \<and> last pre = sep)"
proof (induction s)
  case Nil
  then show ?case by simp
next
  case (Cons c cs)
  then obtain pre where pre: "cs = pre @ last (py_split sep cs)"
    "if length (py_split sep cs) = 1 then pre = [] else pre \<noteq> [] \<and> last pre = sep"
    by blast
  obtain w ws where ws: "py_split sep cs = w # ws"
    using py_split_not_Nil by (cases "py_split sep cs") auto
  show ?case
  proof (cases "c = sep")
    case True
    then have l: "last (py_split sep (c # cs)) = last (py_split sep cs)"
      "length (py_split sep (c # cs)) \<noteq> 1"
      by (simp_all add: py_split_not_Nil)
    have "c # cs = (c # pre) @ last (py_split sep (c # cs))"
      using pre(1) l(1) by simp
    moreover have "last (c # pre) = sep"
      using pre(2) True by (simp split: if_splits)
    ultimately show ?thesis using l(2) by (metis list.distinct(1))
  next
    case False
    show ?thesis
    proof (cases ws)
      case Nil
      then have l: "last (py_split sep (c # cs)) = c # w" "last (py_split sep cs) = w"
        "length (py_split sep (c # cs)) = 1" "length (py_split sep cs) = 1"
        using ws False by auto
      then have "pre = []" using pre(2) by simp
      then have "c # cs = [] @ last (py_split sep (c # cs))" using pre(1) l by simp
      then show ?thesis using l(3) by (metis (full_types))
    next
      case (Cons a list)
      then have l: "last (py_split sep (c # cs)) = last (py_split sep cs)"
        "length (py_split sep (c # cs)) \<noteq> 1" "length (py_split sep cs) \<noteq> 1"
        using ws False by auto
      then have p: "pre \<noteq> []" "last pre = sep" using pre(2) by simp_all
      have "c # cs = (c # pre) @ last (py_split sep (c # cs))"
        using pre(1) l(1) by simp
      moreover have "last (c # pre) = sep" "c # pre \<noteq> []" using p by simp_all
      ultimately show ?thesis using l(2) by metis
    qed
  qed
qed

lemma last_py_split_suffix:
  "\<exists>pre. s = pre @ last (py_split sep s) \<and> (pre = [] \<or> last pre = sep)"
  using last_py_split_decomp [of s sep] by (auto split: if_splits)

subsection \<open>The calls and results of the loaders\<close>

lemma try_body_calls:
  "e \<in> set (fst (load_pytorch_model_try_body env mc ff tc ec)) \<Longrightarrow>
   (\<exists>a b c. e = Call_AutoConfig_from_pretrained a b c) \<or>
   (\<exists>a b. e = Call_check_supertask a b) \<or>
   (\<exists>a b. e = Call_get_class_by_name a b) \<or>
   (\<exists>cls a b c d f. e = Call_model_cls_from_pretrained cls a b c d f ff)"
  by (auto simp: load_pytorch_model_try_body_def Let_def split: sum.splits option.splits)

lemma try_calls: "fst (load_pytorch_model_try env mc ff tc ec) = fst (load_pytorch_model_try_body env mc ff tc ec)"
  by (simp add: load_pytorch_model_try_def split: prod.splits sum.splits)

lemma try_Inr: "snd (load_pytorch_model_try env mc ff tc ec) = Inr m \<longleftrightarrow> snd (load_pytorch_model_try_body env mc ff tc ec) = Inr m"
  by (auto simp add: load_pytorch_model_try_def split: prod.splits sum.splits)

lemma try_Inl: "snd (load_pytorch_model_try env mc ff tc ec) = Inl e \<longleftrightarrow> 
   (\<exists>e0. snd (load_pytorch_model_try_body env mc ff tc ec) = Inl e0 \<and> e = except_OSError_ValueError mc e0)"
  by (auto simp add: load_pytorch_model_try_def split: prod.splits sum.splits)

lemma try_body_Inr:
  assumes "snd (load_pytorch_model_try_body env mc ff tc ec) = Inr m0"
  shows "\<exists>config model_cls.
           AutoConfig_from_pretrained env (model_id mc) (revision mc) (use_auth_token ec)
             = Inr config \<and>
           get_class_by_name env (''auto-model-for-'' @ supertask tc) ''transformers''
             = Inr (Some model_cls) \<and>
           model_cls_from_pretrained env model_cls (model_id mc) (revision mc)
             (use_auth_token ec) config (cache_dir ec) ff = Inr m0"
  using assms
  by (auto simp: load_pytorch_model_try_body_def Let_def split: sum.splits option.splits)

lemma load_pytorch_model_Inr:
  assumes "returned (load_pytorch_model env mc ff tc ec) = Inr d"
  shows "\<exists>m0 mc1 s1 tok0 tok1 s2 s3.
           snd (load_pytorch_model_try env mc ff tc ec) = Inr m0 \<and>
           adjust_model_to_task env m0 mc tc = (mc1, Inr s1) \<and>
           AutoTokenizer_from_pretrained env (model_id mc1) (revision mc1) (use_auth_token ec)
             (tokenizer_params (m0\<lparr>mstate := s1\<rparr>)) = Inr tok0 \<and>
           Call_AutoTokenizer_from_pretrained (model_id mc1) (revision mc1) (use_auth_token ec)
             (tokenizer_params (m0\<lparr>mstate := s1\<rparr>)) \<in> set (calls (load_pytorch_model env mc ff tc ec)) \<and>
           set_model_max_length tok0 = Inr tok1 \<and>
           model_eval env (m0\<lparr>mstate := s1\<rparr>) = Inr s2 \<and>
           model_to env (m0\<lparr>mstate := s2\<rparr>) (device ec) = Inr s3 \<and>
           d ''model'' = Some (Model (m0\<lparr>mstate := s3\<rparr>)) \<and>
           d ''tokenizer'' = Some (Tokenizer tok1)"
  using assms
  by (auto simp: load_pytorch_model_def Let_def split: prod.splits sum.splits)

lemma load_pytorch_model_calls:
  assumes "e \<in> set (calls (load_pytorch_model env mc ff tc ec))"
  shows "e \<in> set (fst (load_pytorch_model_try env mc ff tc ec)) \<or>
         (\<exists>m0 mc1 r. snd (load_pytorch_model_try env mc ff tc ec) = Inr m0 \<and>
            adjust_model_to_task env m0 mc tc = (mc1, r) \<and>
            (e = Call_adjust_model_to_task m0 mc tc \<or>
             (\<exists>s1. r = Inr s1 \<and>
               (e = Call_AutoTokenizer_from_pretrained (model_id mc1) (revision mc1)
                      (use_auth_token ec) (tokenizer_params (m0\<lparr>mstate := s1\<rparr>)) \<or>
                (\<exists>m. e = Call_model_eval m) \<or> (\<exists>m dv. e = Call_model_to m dv)))))"
  using assms
  by (auto simp: load_pytorch_model_def Let_def split: prod.splits sum.splits)

lemma load_pytorch_model_config_after:
  assumes "\<And>m c t. fst (adjust_model_to_task env m c t) = c"
  shows "config_after (load_pytorch_model env mc ff tc ec) = mc"
proof -
  have "\<And>m c t c1 r. adjust_model_to_task env m c t = (c1, r) \<Longrightarrow> c1 = c"
    using assms by (metis fst_conv)
  then show ?thesis
    by (auto simp: load_pytorch_model_def Let_def split: prod.splits sum.splits)
qed

lemma load_spacy_model_calls:
  "e \<in> set (fst (load_spacy_model env mid)) \<Longrightarrow>
     e = Call_is_module_installed (last (py_split CHR ''/'' mid)) \<or>
     e = Call_subprocess_run [''pip3'', ''install'', ''https://huggingface.co/'' @ mid @ ''/resolve/main/'' @ last (py_split CHR ''/'' mid) @ ''-any-py3-none-any.whl''] \<or>
     e = Call_spacy_load (last (py_split CHR ''/'' mid))"
  by (auto simp: load_spacy_model_def load_spacy_model_install_body_def py_last_def Let_def split: prod.splits sum.splits if_splits)

lemma framework_update_same: "framework c = fw \<Longrightarrow> c\<lparr>framework := fw\<rparr> = c"
  by (cases c) auto

lemma load_pytorch_model_no_spacy_call:
  "e \<in> set (calls (load_pytorch_model env mc ff tc ec)) \<Longrightarrow> \<not> is_spacy_call e"
  using load_pytorch_model_calls [of e env mc ff tc ec] try_body_calls [of e env mc ff tc ec]
  by (auto simp: try_calls)

lemma load_pytorch_model_from_flax:
  "Call_model_cls_from_pretrained cls a b c d f g \<in> set (calls (load_pytorch_model env mc ff tc ec))
   \<Longrightarrow> g = ff"
  using load_pytorch_model_calls [of "Call_model_cls_from_pretrained cls a b c d f g" env mc ff tc ec]
    try_body_calls [of "Call_model_cls_from_pretrained cls a b c d f g" env mc ff tc ec]
  by (auto simp: try_calls)

lemma load_spacy_model_only_spacy_calls:
  "e \<in> set (fst (load_spacy_model env mid)) \<Longrightarrow> is_spacy_call e"
  using load_spacy_model_calls [of e env mid] by auto

lemma except_OSError_ValueError_caught:
  "is_OSError e \<or> is_ValueError e \<Longrightarrow>
   except_OSError_ValueError mc e = InvalidEvaluation (private_model_message (model_id mc))"
  by (cases e) (simp_all add: InvalidEvaluation_init_def private_model_message_def)

lemma except_OSError_ValueError_result:
  "\<not> is_OSError (except_OSError_ValueError mc e) \<and> \<not> is_ValueError (except_OSError_ValueError mc e)"
  by (cases e) (simp_all add: InvalidEvaluation_init_def)

lemma load_pytorch_model_try_Inl:
  "snd (load_pytorch_model_try env mc ff tc ec) = Inl e \<Longrightarrow>
   returned (load_pytorch_model env mc ff tc ec) = Inl e"
  by (auto simp: load_pytorch_model_def split: prod.splits sum.splits)

lemma load_spacy_model_Inr:
  assumes "snd (load_spacy_model env mid) = Inr d"
  shows "\<exists>m. spacy_load env (last (py_split CHR ''/'' mid)) = Inr m \<and>
             d = [''model'' \<mapsto> Model m] \<and>
             Call_spacy_load (last (py_split CHR ''/'' mid)) \<in> set (fst (load_spacy_model env mid))"
  using assms
  by (auto simp: load_spacy_model_def py_last_def py_split_not_Nil Let_def
      split: prod.splits sum.splits)

lemma py_min_from_Some:
  "py_min_from (Some c) (map Some xs) = Inr (Some (Min (insert c (set xs))))"
proof (induction xs arbitrary: c)
  case Nil
  then show ?case by simp
next
  case (Cons x xs)
  have 1: "py_min_from (Some c) (map Some (x # xs)) = py_min_from (Some (min c x)) (map Some xs)"
    by (auto simp: min_def)
  have 2: "Min (insert (min c x) (set xs)) = Min (insert c (set (x # xs)))"
    by (cases "xs = []") (simp_all add: min.assoc)
  show ?case by (simp only: 1 Cons.IH 2)
qed

lemma py_min_Some: "xs \<noteq> [] \<Longrightarrow> py_min (map Some xs) = Inr (Some (Min (set xs)))"
  by (cases xs) (simp_all add: py_min_from_Some)

text \<open>
  Lines 166-176 on a tokenizer whose lengths are all integers: the maximal length is set
  to the minimum of the input sizes, or to 512, when it is missing or above 1000, and is
  left as it is otherwise.
\<close>

lemma set_model_max_length_integers:
  assumes "model_max_length t \<noteq> Has None"
    and "\<And>sizes. max_model_input_sizes t = Has sizes \<Longrightarrow> None \<notin> snd ` set sizes"
  shows "\<exists>t1. set_model_max_length t = Inr t1 \<and>
           model_max_length t1 =
             (if model_max_length t = Missing
                 \<or> (\<exists>n. model_max_length t = Has (Some n) \<and> n > 1000)
              then (case max_model_input_sizes t of
                      Has sizes \<Rightarrow>
                        if sizes \<noteq> [] then Has (Some (Min (the ` snd ` set sizes)))
                        else Has (Some 512)
                    | Missing \<Rightarrow> Has (Some 512))
              else model_max_length t) \<and>
           max_model_input_sizes t1 = max_model_input_sizes t \<and>
           tok_rest t1 = tok_rest t"
proof -
  have m: "py_min (map snd sizes) = Inr (Some (Min (the ` snd ` set sizes)))"
    if "max_model_input_sizes t = Has sizes" "sizes \<noteq> []" for sizes
  proof -
    have "\<forall>p \<in> set sizes. snd p \<noteq> None" using assms(2) [OF that(1)] by force
    then have "map snd sizes = map Some (map (the \<circ> snd) sizes)" by (induction sizes) auto
    moreover have "map (the \<circ> snd) sizes \<noteq> []" using that(2) by simp
    ultimately have "py_min (map snd sizes) = Inr (Some (Min (set (map (the \<circ> snd) sizes))))"
      using py_min_Some by metis
    then show ?thesis by (simp add: image_image)
  qed
  show ?thesis
  proof (cases "model_max_length t")
    case Missing
    then show ?thesis
      using m by (cases "max_model_input_sizes t") (auto simp: set_model_max_length_def Let_def)
  next
    case (Has v)
    then obtain n where n: "v = Some n" using assms(1) by (cases v) auto
    show ?thesis
      using Has n m
      by (cases "max_model_input_sizes t")
        (auto simp: set_model_max_length_def py_greater_def Let_def)
  qed
qed

text \<open>
  A list with two items of which one is \<^verbatim>\<open>None\<close> has no minimum: the first comparison
  raises.
\<close>

lemma py_min_None: "x = None \<or> y = None \<Longrightarrow> py_min (x # y # xs) = Inl TypeError"
  by (cases x; cases y) auto

lemma tokenizer_params_spec:
  "map_of (tokenizer_params m) ''use_fast'' = Some True"
  "map_of (tokenizer_params m) ''add_prefix_space''
     = Some (\<exists>pre suf. cls_name m = pre @ ''Roberta'' @ suf)"
  "dom (map_of (tokenizer_params m)) = {''use_fast'', ''add_prefix_space''}"
  by (auto simp: tokenizer_params_def Let_def py_in_iff split: if_splits)

lemma load_pytorch_model_config_after_framework:
  assumes "\<And>m c t. framework (fst (adjust_model_to_task env m c t)) = framework c"
  shows "framework (config_after (load_pytorch_model env mc ff tc ec)) = framework mc"
proof -
  have "\<And>m c t c1 r. adjust_model_to_task env m c t = (c1, r) \<Longrightarrow> framework c1 = framework c"
    using assms by (metis fst_conv)
  then show ?thesis
    by (auto simp: load_pytorch_model_def Let_def split: prod.splits sum.splits)
qed

section \<open>The claims\<close>

text \<open>
  C1. A model configuration whose framework is none of \<open>PYTORCH\<close>, \<open>SPACY\<close> and
  \<open>JAX\<close> makes \<^verbatim>\<open>load_model\<close> raise \<^verbatim>\<open>InvalidFramework\<close>; the exception carries
  that framework value, and no library call has been made before it is raised.
\<close>

theorem load_model_invalid_framework:
  assumes "framework model_config \<notin> {PYTORCH, SPACY, JAX}"
  shows "returned (load_model env model_config task_config evaluation_config) =
           Inl (InvalidFramework (framework model_config)
                  (''The framework '' @ format_framework env (framework model_config)
                   @ '' is not supported.''))
         \<and> calls (load_model env model_config task_config evaluation_config) = []"
  using assms by (simp add: load_model_def InvalidFramework_init_def)

theorem load_model_invalid_framework_witness:
  "framework (example_model_config (OtherFramework ''tensorflow'')) \<notin> {PYTORCH, SPACY, JAX}
   \<and> returned (load_model example_env (example_model_config (OtherFramework ''tensorflow''))
        example_task_config example_evaluation_config) =
       Inl (InvalidFramework (OtherFramework ''tensorflow'')
              ''The framework tensorflow is not supported.'')
   \<and> calls (load_model example_env (example_model_config (OtherFramework ''tensorflow''))
        example_task_config example_evaluation_config) = []"
proof -
  have h: "framework (example_model_config (OtherFramework ''tensorflow'')) \<notin> {PYTORCH, SPACY, JAX}"
    by (simp add: example_model_config_def)
  show ?thesis
    using h load_model_invalid_framework [OF h, of example_env example_task_config
      example_evaluation_config]
    by (simp add: example_defs)
qed

text \<open>
  C2. When \<^verbatim>\<open>load_model\<close> is called with a supported framework and returns, the
  returned dictionary has the key \<^verbatim>\<open>'model'\<close>, and its value is the loaded model object:
  the pipeline that \<^verbatim>\<open>spacy.load\<close> answered for the local name, or the object that
  the model class answered when instantiated from the configured model id, revision,
  token, fetched configuration, cache directory and flax flag, in the state in which
  \<^verbatim>\<open>adjust_model_to_task\<close>, \<^verbatim>\<open>model.eval()\<close> and \<^verbatim>\<open>model.to(device)\<close> left it.
\<close>

theorem load_model_returns_model:
  assumes "framework model_config \<in> {PYTORCH, SPACY, JAX}"
    and "returned (load_model env model_config task_config evaluation_config) = Inr d"
  shows "\<exists>m. d ''model'' = Some (Model m) \<and>
           (if framework model_config = SPACY
            then spacy_load env (last (py_split CHR ''/'' (model_id model_config))) = Inr m
            else \<exists>config model_cls m0 s1 s2 s3.
                   AutoConfig_from_pretrained env (model_id model_config)
                     (revision model_config) (use_auth_token evaluation_config) = Inr config
                 \<and> get_class_by_name env (''auto-model-for-'' @ supertask task_config)
                     ''transformers'' = Inr (Some model_cls)
                 \<and> model_cls_from_pretrained env model_cls (model_id model_config)
                     (revision model_config) (use_auth_token evaluation_config) config
                     (cache_dir evaluation_config) (framework model_config = JAX) = Inr m0
                 \<and> snd (adjust_model_to_task env m0 (model_config\<lparr>framework := PYTORCH\<rparr>)
                          task_config) = Inr s1
                 \<and> model_eval env (m0\<lparr>mstate := s1\<rparr>) = Inr s2
                 \<and> model_to env (m0\<lparr>mstate := s2\<rparr>) (device evaluation_config) = Inr s3
                 \<and> m = m0\<lparr>mstate := s3\<rparr>
                 \<and> obj_id m = obj_id m0 \<and> cls_name m = cls_name m0)"
proof (cases "framework model_config = SPACY")
  case True
  then have "snd (load_spacy_model env (model_id model_config)) = Inr d"
    using assms(2) by (simp add: load_model_def split: prod.splits)
  then show ?thesis using True
    by (auto simp: load_spacy_model_def py_last_def Let_def split: prod.splits sum.splits if_splits)
next
  case False
  let ?mc = "model_config\<lparr>framework := PYTORCH\<rparr>"
  let ?ff = "framework model_config = JAX"
  have "returned (load_pytorch_model env ?mc ?ff task_config evaluation_config) = Inr d"
    using False assms by (auto simp: load_model_def Let_def framework_update_same)
  from load_pytorch_model_Inr [OF this] obtain m0 mc1 s1 s2 s3 where
    t: "snd (load_pytorch_model_try env ?mc ?ff task_config evaluation_config) = Inr m0"
    and a: "adjust_model_to_task env m0 ?mc task_config = (mc1, Inr s1)"
    and e: "model_eval env (m0\<lparr>mstate := s1\<rparr>) = Inr s2"
    and o: "model_to env (m0\<lparr>mstate := s2\<rparr>) (device evaluation_config) = Inr s3"
    and d: "d ''model'' = Some (Model (m0\<lparr>mstate := s3\<rparr>))"
    by (elim exE conjE) (rule that)
  from t have "snd (load_pytorch_model_try_body env ?mc ?ff task_config evaluation_config)
                 = Inr m0"
    by (simp add: try_Inr)
  from try_body_Inr [OF this] obtain config model_cls where
    c: "AutoConfig_from_pretrained env (model_id model_config) (revision model_config)
          (use_auth_token evaluation_config) = Inr config"
    and g: "get_class_by_name env (''auto-model-for-'' @ supertask task_config)
          ''transformers'' = Inr (Some model_cls)"
    and l: "model_cls_from_pretrained env model_cls (model_id model_config)
          (revision model_config) (use_auth_token evaluation_config) config
          (cache_dir evaluation_config) ?ff = Inr m0"
    by auto
  have a': "snd (adjust_model_to_task env m0 ?mc task_config) = Inr s1"
    using a by simp
  show ?thesis
    apply (rule exI [of _ "m0\<lparr>mstate := s3\<rparr>"])
    apply (simp only: d False if_False simp_thms)
    apply (rule exI [of _ config], rule exI [of _ model_cls], rule exI [of _ m0])
    apply (rule exI [of _ s1], rule exI [of _ s2], rule exI [of _ s3])
    using c g l a' e o by simp
qed

theorem load_model_returns_model_witness:
  "framework (example_model_config JAX) \<in> {PYTORCH, SPACY, JAX}
   \<and> model_cls_from_pretrained example_env ''AutoModelForSequenceClassification''
        ''org/da_core'' ''main'' (AuthFlag False)
        \<lparr>architectures = Some [''RobertaForSequenceClassification''], config_rest = 0\<rparr>
        ''.cache'' True
      = Inr \<lparr>obj_id = 1, cls_name = ''XLMRobertaForSequenceClassification'', mstate = 0\<rparr>
   \<and> (\<exists>d. returned (load_model example_env (example_model_config JAX) example_task_config
            example_evaluation_config) = Inr d \<and>
        d ''model'' =
          Some (Model \<lparr>obj_id = 1, cls_name = ''XLMRobertaForSequenceClassification'', mstate = 3\<rparr>))"
proof -
  let ?d = "[''model'' \<mapsto> Model \<lparr>obj_id = 1, cls_name = ''XLMRobertaForSequenceClassification'', mstate = 3\<rparr>,
             ''tokenizer'' \<mapsto> Tokenizer \<lparr>model_max_length = Has (Some 512),
                max_model_input_sizes =
                  Has [(''roberta-base'', Some 512), (''roberta-large'', Some 514)],
                tok_rest = 0\<rparr>]"
  have h1: "framework (example_model_config JAX) \<in> {PYTORCH, SPACY, JAX}"
    by (simp add: example_model_config_def)
  have h2: "returned (load_model example_env (example_model_config JAX) example_task_config
              example_evaluation_config) = Inr ?d"
    by (simp add: loader_defs example_defs)
  from load_model_returns_model [OF h1 h2] h1 h2 show ?thesis
    by (simp add: example_defs)
qed

text \<open>
  C3. \<^verbatim>\<open>load_model\<close> dispatches on the framework: \<open>PYTORCH\<close> runs
  \<^verbatim>\<open>load_pytorch_model\<close> with \<^verbatim>\<open>from_flax=False\<close>, \<open>JAX\<close> runs it with
  \<^verbatim>\<open>from_flax=True\<close> on the configuration whose tag is now \<open>PYTORCH\<close>, and \<open>SPACY\<close>
  runs \<^verbatim>\<open>load_spacy_model\<close> on the configured model id. The calls of a run belong to one
  adapter only, and the model class is instantiated with \<^verbatim>\<open>from_flax\<close> true exactly for
  \<open>JAX\<close>.
\<close>

theorem load_model_dispatch:
  "load_model env model_config task_config evaluation_config =
     (case framework model_config of
        PYTORCH \<Rightarrow> load_pytorch_model env model_config False task_config evaluation_config
      | JAX \<Rightarrow> load_pytorch_model env (model_config\<lparr>framework := PYTORCH\<rparr>) True
                 task_config evaluation_config
      | SPACY \<Rightarrow> \<lparr>calls = fst (load_spacy_model env (model_id model_config)),
                  config_after = model_config,
                  returned = snd (load_spacy_model env (model_id model_config))\<rparr>
      | OtherFramework n \<Rightarrow>
          \<lparr>calls = [], config_after = model_config,
           returned = Inl (InvalidFramework_init env (OtherFramework n))\<rparr>)
   \<and> (\<forall>e \<in> set (calls (load_model env model_config task_config evaluation_config)).
        is_spacy_call e \<longleftrightarrow> framework model_config = SPACY)
   \<and> (\<forall>cls a b c d f g.
        Call_model_cls_from_pretrained cls a b c d f g
          \<in> set (calls (load_model env model_config task_config evaluation_config))
        \<longrightarrow> g = (framework model_config = JAX))"
proof -
  let ?r = "load_model env model_config task_config evaluation_config"
  let ?ff = "framework model_config = JAX"
  let ?mc = "if ?ff then model_config\<lparr>framework := PYTORCH\<rparr> else model_config"
  have eq: "framework model_config = PYTORCH \<or> framework model_config = JAX
              \<Longrightarrow> ?r = load_pytorch_model env ?mc ?ff task_config evaluation_config"
    by (auto simp: load_model_def)
  have sp: "framework model_config = SPACY
              \<Longrightarrow> calls ?r = fst (load_spacy_model env (model_id model_config))"
    by (auto simp: load_model_def split: prod.splits)
  have ot: "\<And>n. framework model_config = OtherFramework n \<Longrightarrow> calls ?r = []"
    by (auto simp: load_model_def)
  have 1: "?r =
     (case framework model_config of
        PYTORCH \<Rightarrow> load_pytorch_model env model_config False task_config evaluation_config
      | JAX \<Rightarrow> load_pytorch_model env (model_config\<lparr>framework := PYTORCH\<rparr>) True
                 task_config evaluation_config
      | SPACY \<Rightarrow> \<lparr>calls = fst (load_spacy_model env (model_id model_config)),
                  config_after = model_config,
                  returned = snd (load_spacy_model env (model_id model_config))\<rparr>
      | OtherFramework n \<Rightarrow>
          \<lparr>calls = [], config_after = model_config,
           returned = Inl (InvalidFramework_init env (OtherFramework n))\<rparr>)"
    by (cases "framework model_config") (auto simp: load_model_def split: prod.splits)
  have 2: "is_spacy_call e \<longleftrightarrow> framework model_config = SPACY" if "e \<in> set (calls ?r)" for e
  proof (cases "framework model_config")
    case PYTORCH
    then show ?thesis using that eq load_pytorch_model_no_spacy_call by fastforce
  next
    case JAX
    then show ?thesis using that eq load_pytorch_model_no_spacy_call by fastforce
  next
    case SPACY
    then show ?thesis using that sp load_spacy_model_only_spacy_calls by fastforce
  next
    case (OtherFramework n)
    then show ?thesis using that ot by simp
  qed
  have 3: "g = ?ff"
    if "Call_model_cls_from_pretrained cls a b c d f g \<in> set (calls ?r)" for cls a b c d f g
  proof (cases "framework model_config")
    case PYTORCH
    then show ?thesis using that eq load_pytorch_model_from_flax by metis
  next
    case JAX
    then show ?thesis using that eq load_pytorch_model_from_flax by metis
  next
    case SPACY
    then have "is_spacy_call (Call_model_cls_from_pretrained cls a b c d f g)"
      using that sp load_spacy_model_only_spacy_calls by metis
    then show ?thesis by simp
  next
    case (OtherFramework n)
    then show ?thesis using that ot by simp
  qed
  from 1 2 3 show ?thesis by blast
qed

theorem load_model_dispatch_witness:
  "calls (load_model example_env (example_model_config JAX) example_task_config
      example_evaluation_config) =
   calls (load_pytorch_model example_env (example_model_config PYTORCH) True example_task_config
      example_evaluation_config)
   \<and> Call_model_cls_from_pretrained ''AutoModelForSequenceClassification'' ''org/da_core'' ''main''
        (AuthFlag False)
        \<lparr>architectures = Some [''RobertaForSequenceClassification''], config_rest = 0\<rparr>
        ''.cache'' True
      \<in> set (calls (load_model example_env (example_model_config JAX) example_task_config
            example_evaluation_config))"
proof -
  have fw: "framework (example_model_config JAX) = JAX"
    "(example_model_config JAX)\<lparr>framework := PYTORCH\<rparr> = example_model_config PYTORCH"
    by (simp_all add: example_model_config_def)
  have mem: "Call_model_cls_from_pretrained ''AutoModelForSequenceClassification'' ''org/da_core'' ''main''
        (AuthFlag False)
        \<lparr>architectures = Some [''RobertaForSequenceClassification''], config_rest = 0\<rparr>
        ''.cache'' True
      \<in> set (calls (load_pytorch_model example_env (example_model_config PYTORCH) True example_task_config
            example_evaluation_config))"
    by (simp add: loader_defs example_defs)
  show ?thesis
    using load_model_dispatch [of example_env "example_model_config JAX" example_task_config
      example_evaluation_config] mem
    by (simp add: fw)
qed

text \<open>
  C4. In \<^verbatim>\<open>load_pytorch_model\<close>, an \<^verbatim>\<open>OSError\<close> or \<^verbatim>\<open>ValueError\<close> raised by the
  configuration retrieval, the supertask check, the model-class lookup or the model
  instantiation becomes an \<^verbatim>\<open>InvalidEvaluation\<close>; whatever the \<^verbatim>\<open>try\<close> statement
  raises reaches the caller and is neither an \<^verbatim>\<open>OSError\<close> nor a \<^verbatim>\<open>ValueError\<close>.
\<close>

theorem load_pytorch_model_translates_errors:
  "(\<forall>e. (is_OSError e \<or> is_ValueError e) \<and>
          (AutoConfig_from_pretrained env (model_id model_config) (revision model_config)
             (use_auth_token evaluation_config) = Inl e \<or>
           (\<exists>config. AutoConfig_from_pretrained env (model_id model_config)
                       (revision model_config) (use_auth_token evaluation_config) = Inr config \<and>
              (check_supertask env (architectures config) (supertask task_config) = Inl e \<or>
               (\<exists>u. check_supertask env (architectures config) (supertask task_config) = Inr u \<and>
                  (get_class_by_name env (''auto-model-for-'' @ supertask task_config)
                     ''transformers'' = Inl e \<or>
                   (\<exists>model_cls.
                      get_class_by_name env (''auto-model-for-'' @ supertask task_config)
                        ''transformers'' = Inr (Some model_cls) \<and>
                      model_cls_from_pretrained env model_cls (model_id model_config)
                        (revision model_config) (use_auth_token evaluation_config) config
                        (cache_dir evaluation_config) from_flax = Inl e))))))
          \<longrightarrow> returned (load_pytorch_model env model_config from_flax task_config evaluation_config)
                = Inl (InvalidEvaluation (private_model_message (model_id model_config))))
   \<and> (\<forall>e. snd (load_pytorch_model_try env model_config from_flax task_config evaluation_config) = Inl e
           \<longrightarrow> returned (load_pytorch_model env model_config from_flax task_config evaluation_config) = Inl e
               \<and> \<not> is_OSError e \<and> \<not> is_ValueError e)"
proof (intro conjI allI impI)
  fix e
  assume a: "(is_OSError e \<or> is_ValueError e) \<and>
          (AutoConfig_from_pretrained env (model_id model_config) (revision model_config)
             (use_auth_token evaluation_config) = Inl e \<or>
           (\<exists>config. AutoConfig_from_pretrained env (model_id model_config)
                       (revision model_config) (use_auth_token evaluation_config) = Inr config \<and>
              (check_supertask env (architectures config) (supertask task_config) = Inl e \<or>
               (\<exists>u. check_supertask env (architectures config) (supertask task_config) = Inr u \<and>
                  (get_class_by_name env (''auto-model-for-'' @ supertask task_config)
                     ''transformers'' = Inl e \<or>
                   (\<exists>model_cls.
                      get_class_by_name env (''auto-model-for-'' @ supertask task_config)
                        ''transformers'' = Inr (Some model_cls) \<and>
                      model_cls_from_pretrained env model_cls (model_id model_config)
                        (revision model_config) (use_auth_token evaluation_config) config
                        (cache_dir evaluation_config) from_flax = Inl e))))))"
  then have "snd (load_pytorch_model_try_body env model_config from_flax task_config
                    evaluation_config) = Inl e"
    by (auto simp: load_pytorch_model_try_body_def Let_def)
  then have "snd (load_pytorch_model_try env model_config from_flax task_config evaluation_config) = Inl (except_OSError_ValueError model_config e)"
    by (simp add: try_Inl)
  then show "returned (load_pytorch_model env model_config from_flax task_config evaluation_config)
               = Inl (InvalidEvaluation (private_model_message (model_id model_config)))"
    using a load_pytorch_model_try_Inl except_OSError_ValueError_caught by metis
next
  fix e
  assume "snd (load_pytorch_model_try env model_config from_flax task_config evaluation_config) = Inl e"
  then show "returned (load_pytorch_model env model_config from_flax task_config evaluation_config) = Inl e"
    by (rule load_pytorch_model_try_Inl)
next
  fix e
  assume "snd (load_pytorch_model_try env model_config from_flax task_config evaluation_config) = Inl e"
  then show "\<not> is_OSError e" using except_OSError_ValueError_result by (auto simp: try_Inl)
next
  fix e
  assume "snd (load_pytorch_model_try env model_config from_flax task_config evaluation_config) = Inl e"
  then show "\<not> is_ValueError e" using except_OSError_ValueError_result by (auto simp: try_Inl)
qed

theorem load_pytorch_model_translates_errors_witness:
  "is_OSError (OSError ''Connection error'')
   \<and> model_cls_from_pretrained example_env_hub_down ''AutoModelForSequenceClassification''
        ''org/da_core'' ''main'' (AuthFlag False)
        \<lparr>architectures = Some [''RobertaForSequenceClassification''], config_rest = 0\<rparr>
        ''.cache'' False = Inl (OSError ''Connection error'')
   \<and> returned (load_pytorch_model example_env_hub_down (example_model_config PYTORCH) False
        example_task_config example_evaluation_config)
      = Inl (InvalidEvaluation (private_model_message ''org/da_core''))
   \<and> snd (load_pytorch_model_try example_env_hub_down (example_model_config PYTORCH) False
        example_task_config example_evaluation_config)
      = Inl (InvalidEvaluation (private_model_message ''org/da_core''))"
proof -
  have t: "snd (load_pytorch_model_try example_env_hub_down (example_model_config PYTORCH) False
        example_task_config example_evaluation_config)
      = Inl (InvalidEvaluation (private_model_message ''org/da_core''))"
    by (simp add: loader_defs example_defs example_env_hub_down_def private_model_message_def)
  have c: "AutoConfig_from_pretrained example_env_hub_down ''org/da_core'' ''main'' (AuthFlag False)
            = Inr \<lparr>architectures = Some [''RobertaForSequenceClassification''], config_rest = 0\<rparr>"
    and s: "check_supertask example_env_hub_down (Some [''RobertaForSequenceClassification''])
              ''sequence-classification'' = Inr ()"
    and g: "get_class_by_name example_env_hub_down ''auto-model-for-sequence-classification''
              ''transformers'' = Inr (Some ''AutoModelForSequenceClassification'')"
    and m: "model_cls_from_pretrained example_env_hub_down ''AutoModelForSequenceClassification''
        ''org/da_core'' ''main'' (AuthFlag False)
        \<lparr>architectures = Some [''RobertaForSequenceClassification''], config_rest = 0\<rparr>
        ''.cache'' False = Inl (OSError ''Connection error'')"
    by (simp_all add: example_env_hub_down_def example_env_def)
  show ?thesis
    using load_pytorch_model_translates_errors [of example_env_hub_down
        "example_model_config PYTORCH" example_evaluation_config example_task_config False]
      c s g m t
    by (simp add: example_model_config_def example_task_config_def example_evaluation_config_def)
qed

text \<open>
  C5. In \<^verbatim>\<open>load_spacy_model\<close>, a \<^verbatim>\<open>CalledProcessError\<close> of the wheel installation
  becomes \<^verbatim>\<open>ModelFetchFailed\<close> with the local model id and the process output, and an
  \<^verbatim>\<open>OSError\<close> of \<^verbatim>\<open>spacy.load\<close> becomes \<^verbatim>\<open>ModelFetchFailed\<close> with the full model
  id and the error text.
\<close>

theorem load_spacy_model_wraps_failures:
  fixes the_model_id :: string
  shows
  "(\<forall>output. snd (load_spacy_model_install_body env the_model_id
                    (last (py_split CHR ''/'' the_model_id))) = Inl (CalledProcessError output)
        \<longrightarrow> snd (load_spacy_model env the_model_id)
              = Inl (ModelFetchFailed (last (py_split CHR ''/'' the_model_id)) output
                       (''Download of '' @ last (py_split CHR ''/'' the_model_id)
                        @ '' from the Hugging Face Hub failed, with the following error message: ''
                        @ output @ ''.'')))
   \<and> (\<forall>output. is_module_installed env (last (py_split CHR ''/'' the_model_id)) = Inr False \<and>
          subprocess_run env
            [''pip3'', ''install'',
             ''https://huggingface.co/'' @ the_model_id @ ''/resolve/main/''
             @ last (py_split CHR ''/'' the_model_id) @ ''-any-py3-none-any.whl'']
            = Inl (CalledProcessError output)
        \<longrightarrow> snd (load_spacy_model env the_model_id)
              = Inl (ModelFetchFailed (last (py_split CHR ''/'' the_model_id)) output
                       (''Download of '' @ last (py_split CHR ''/'' the_model_id)
                        @ '' from the Hugging Face Hub failed, with the following error message: ''
                        @ output @ ''.'')))
   \<and> (\<forall>str_e. (\<exists>u. snd (load_spacy_model_install_body env the_model_id
                         (last (py_split CHR ''/'' the_model_id))) = Inr u) \<and>
          spacy_load env (last (py_split CHR ''/'' the_model_id)) = Inl (OSError str_e)
        \<longrightarrow> snd (load_spacy_model env the_model_id)
              = Inl (ModelFetchFailed the_model_id str_e
                       (''Download of '' @ the_model_id
                        @ '' failed, with the following error message: '' @ str_e @ ''.'')))"
  by (auto simp: load_spacy_model_def load_spacy_model_install_body_def py_last_def
      py_split_not_Nil ModelFetchFailed_init_def Let_def split: prod.splits sum.splits)

theorem load_spacy_model_wraps_failures_witness:
  "is_module_installed example_env_pip_fails ''da_core'' = Inr False
   \<and> subprocess_run example_env_pip_fails
        [''pip3'', ''install'',
         ''https://huggingface.co/org/da_core/resolve/main/da_core-any-py3-none-any.whl'']
      = Inl (CalledProcessError ''ERROR: 404 Not Found'')
   \<and> snd (load_spacy_model_install_body example_env_pip_fails ''org/da_core'' ''da_core'')
      = Inl (CalledProcessError ''ERROR: 404 Not Found'')
   \<and> snd (load_spacy_model example_env_pip_fails ''org/da_core'')
      = Inl (ModelFetchFailed ''da_core'' ''ERROR: 404 Not Found''
          ''Download of da_core from the Hugging Face Hub failed, with the following error message: ERROR: 404 Not Found.'')
   \<and> snd (load_spacy_model_install_body example_env_no_package ''org/da_core'' ''da_core'') = Inr ()
   \<and> spacy_load example_env_no_package ''da_core'' = Inl (OSError ''[E050] Cannot find model'')
   \<and> snd (load_spacy_model example_env_no_package ''org/da_core'')
      = Inl (ModelFetchFailed ''org/da_core'' ''[E050] Cannot find model''
          ''Download of org/da_core failed, with the following error message: [E050] Cannot find model.'')"
proof -
  have l: "last (py_split CHR ''/'' ''org/da_core'') = ''da_core''" by simp
  have a: "is_module_installed example_env_pip_fails ''da_core'' = Inr False"
    and b: "subprocess_run example_env_pip_fails
        [''pip3'', ''install'',
         ''https://huggingface.co/org/da_core/resolve/main/da_core-any-py3-none-any.whl'']
      = Inl (CalledProcessError ''ERROR: 404 Not Found'')"
    and i: "snd (load_spacy_model_install_body example_env_pip_fails ''org/da_core'' ''da_core'')
              = Inl (CalledProcessError ''ERROR: 404 Not Found'')"
    and c: "snd (load_spacy_model_install_body example_env_no_package ''org/da_core'' ''da_core'') = Inr ()"
    and d: "spacy_load example_env_no_package ''da_core'' = Inl (OSError ''[E050] Cannot find model'')"
    by (simp_all add: example_env_pip_fails_def example_env_no_package_def example_env_def
        load_spacy_model_install_body_def)
  show ?thesis
    using load_spacy_model_wraps_failures [of example_env_pip_fails "''org/da_core''"]
      load_spacy_model_wraps_failures [of example_env_no_package "''org/da_core''"]
      a b c d i
    by (simp add: l)
qed

text \<open>
  C6. In \<^verbatim>\<open>load_pytorch_model\<close>, a tokenizer whose \<^verbatim>\<open>model_max_length\<close> is missing
  or above 1000 should get the minimum of the values of \<^verbatim>\<open>max_model_input_sizes\<close>
  when that dict exists and is non-empty, and 512 otherwise. The code does so when the
  values are integers (\<open>set_model_max_length_integers\<close>). On the tokenizer of an XLNet
  checkpoint, whose maximal length is above 1000 and whose two input sizes are
  \<^verbatim>\<open>None\<close>, line 171 compares \<^verbatim>\<open>None\<close> with \<^verbatim>\<open>None\<close>: \<^verbatim>\<open>load_pytorch_model\<close>
  raises \<^verbatim>\<open>TypeError\<close> after the tokenizer has been loaded, sets no length and returns
  no dictionary.
\<close>

theorem load_pytorch_model_tokenizer_max_length_TypeError:
  "AutoTokenizer_from_pretrained example_env_xlnet ''xlnet-base-cased'' ''main'' (AuthFlag False)
     [(''use_fast'', True), (''add_prefix_space'', False)]
     = Inr \<lparr>model_max_length = Has (Some 1000000000000000019884624838656),
            max_model_input_sizes =
              Has [(''xlnet-base-cased'', None), (''xlnet-large-cased'', None)],
            tok_rest = 0\<rparr>
   \<and> last (calls (load_pytorch_model example_env_xlnet example_xlnet_model_config False
              example_task_config example_evaluation_config))
       = Call_AutoTokenizer_from_pretrained ''xlnet-base-cased'' ''main'' (AuthFlag False)
           [(''use_fast'', True), (''add_prefix_space'', False)]
   \<and> returned (load_pytorch_model example_env_xlnet example_xlnet_model_config False
         example_task_config example_evaluation_config) = Inl TypeError"
  by (simp add: loader_defs example_defs example_env_xlnet_def example_xlnet_model_config_def)

text \<open>
  C7. In \<^verbatim>\<open>load_pytorch_model\<close>, the tokenizer loader is called with
  \<^verbatim>\<open>use_fast=True\<close> and with \<^verbatim>\<open>add_prefix_space\<close> true if and only if
  \<^verbatim>\<open>'Roberta'\<close> occurs in the name of the class of the loaded model.
\<close>

theorem load_pytorch_model_tokenizer_params:
  assumes "Call_AutoTokenizer_from_pretrained m_id rvn tk params
             \<in> set (calls (load_pytorch_model env model_config from_flax task_config
                       evaluation_config))"
  shows "map_of params ''use_fast'' = Some True
     \<and> (\<exists>the_model. snd (load_pytorch_model_try env model_config from_flax task_config
                            evaluation_config) = Inr the_model
          \<and> map_of params ''add_prefix_space''
              = Some (\<exists>pre suf. cls_name the_model = pre @ ''Roberta'' @ suf))
     \<and> dom (map_of params) = {''use_fast'', ''add_prefix_space''}"
proof -
  let ?e = "Call_AutoTokenizer_from_pretrained m_id rvn tk params"
  have "?e \<notin> set (fst (load_pytorch_model_try env model_config from_flax task_config
                         evaluation_config))"
    using try_body_calls [of ?e env model_config from_flax task_config evaluation_config]
    by (auto simp: try_calls)
  with load_pytorch_model_calls [OF assms] obtain m0 s1 where
    m: "snd (load_pytorch_model_try env model_config from_flax task_config evaluation_config)
          = Inr m0"
    and p: "params = tokenizer_params (m0\<lparr>mstate := s1\<rparr>)"
    by auto
  have "cls_name (m0\<lparr>mstate := s1\<rparr>) = cls_name m0" by simp
  with m p tokenizer_params_spec [of "m0\<lparr>mstate := s1\<rparr>"] show ?thesis by auto
qed

theorem load_pytorch_model_tokenizer_params_witness:
  "Call_AutoTokenizer_from_pretrained ''org/da_core'' ''main'' (AuthFlag False)
     [(''use_fast'', True), (''add_prefix_space'', True)]
     \<in> set (calls (load_pytorch_model example_env (example_model_config PYTORCH) False
               example_task_config example_evaluation_config))
   \<and> snd (load_pytorch_model_try example_env (example_model_config PYTORCH) False
               example_task_config example_evaluation_config)
       = Inr \<lparr>obj_id = 1, cls_name = ''XLMRobertaForSequenceClassification'', mstate = 0\<rparr>
   \<and> (\<exists>pre suf. ''XLMRobertaForSequenceClassification'' = pre @ ''Roberta'' @ suf)"
proof -
  have h: "Call_AutoTokenizer_from_pretrained ''org/da_core'' ''main'' (AuthFlag False)
     [(''use_fast'', True), (''add_prefix_space'', True)]
     \<in> set (calls (load_pytorch_model example_env (example_model_config PYTORCH) False
               example_task_config example_evaluation_config))"
    by (simp add: loader_defs example_defs)
  have t: "snd (load_pytorch_model_try example_env (example_model_config PYTORCH) False
               example_task_config example_evaluation_config)
       = Inr \<lparr>obj_id = 1, cls_name = ''XLMRobertaForSequenceClassification'', mstate = 0\<rparr>"
    by (simp add: loader_defs example_defs)
  from load_pytorch_model_tokenizer_params [OF h] h t show ?thesis by simp
qed

text \<open>
  C8. \<^verbatim>\<open>load_model\<close> writes to its argument \<^verbatim>\<open>model_config\<close>: for \<open>JAX\<close> the
  framework is overwritten with \<open>PYTORCH\<close> before the dispatch, so the adapter works on
  the overwritten object, and the caller finds the change afterwards; for every other
  framework the dispatcher leaves the object as it was. The only other code that holds
  the object is \<^verbatim>\<open>adjust_model_to_task\<close>: the caller finds the tag \<open>PYTORCH\<close> when that
  function keeps the tag, and finds exactly the dispatcher's object when it writes nothing.
\<close>

theorem load_model_config_after:
  "((\<forall>m c t. framework (fst (adjust_model_to_task env m c t)) = framework c) \<longrightarrow>
      framework model_config = JAX \<longrightarrow>
      framework (config_after (load_model env model_config task_config evaluation_config))
        = PYTORCH)
   \<and> ((\<forall>m c t. fst (adjust_model_to_task env m c t) = c) \<longrightarrow>
      config_after (load_model env model_config task_config evaluation_config) =
        (if framework model_config = JAX then model_config\<lparr>framework := PYTORCH\<rparr>
         else model_config))
   \<and> (\<forall>m c t. Call_adjust_model_to_task m c t
            \<in> set (calls (load_model env model_config task_config evaluation_config))
          \<longrightarrow> c = (if framework model_config = JAX then model_config\<lparr>framework := PYTORCH\<rparr>
                   else model_config))
   \<and> (framework model_config \<notin> {PYTORCH, JAX} \<longrightarrow>
        config_after (load_model env model_config task_config evaluation_config) = model_config)"
proof -
  let ?r = "load_model env model_config task_config evaluation_config"
  let ?mc = "if framework model_config = JAX then model_config\<lparr>framework := PYTORCH\<rparr>
             else model_config"
  have 0: "framework (config_after ?r) = PYTORCH"
    if "\<forall>m c t. framework (fst (adjust_model_to_task env m c t)) = framework c"
      and "framework model_config = JAX"
    using that load_pytorch_model_config_after_framework [of env "model_config\<lparr>framework := PYTORCH\<rparr>"]
    by (simp add: load_model_def)
  have 1: "config_after ?r = ?mc" if "\<forall>m c t. fst (adjust_model_to_task env m c t) = c"
    using that load_pytorch_model_config_after [of env]
    by (auto simp: load_model_def split: prod.splits)
  have 2: "c = ?mc" if "Call_adjust_model_to_task m c t \<in> set (calls ?r)" for m c t
  proof (cases "framework ?mc = PYTORCH")
    case True
    then have "?r = load_pytorch_model env ?mc (framework model_config = JAX) task_config
                      evaluation_config"
      by (auto simp: load_model_def)
    with that load_pytorch_model_calls [of "Call_adjust_model_to_task m c t" env ?mc
        "framework model_config = JAX" task_config evaluation_config]
      try_body_calls [of "Call_adjust_model_to_task m c t" env ?mc
        "framework model_config = JAX" task_config evaluation_config]
    show ?thesis by (auto simp: try_calls)
  next
    case False
    then have "\<forall>e \<in> set (calls ?r). is_spacy_call e"
      using load_spacy_model_only_spacy_calls [of _ env "model_id model_config"]
      by (auto simp: load_model_def split: prod.splits if_splits)
    with that show ?thesis by fastforce
  qed
  have 3: "config_after ?r = model_config" if "framework model_config \<notin> {PYTORCH, JAX}"
    using that by (auto simp: load_model_def split: prod.splits)
  from 0 1 2 3 show ?thesis by blast
qed

theorem load_model_config_after_witness:
  "(\<forall>m c t. fst (adjust_model_to_task example_env m c t) = c)
   \<and> framework (example_model_config JAX) = JAX
   \<and> config_after (load_model example_env (example_model_config JAX) example_task_config
        example_evaluation_config) = example_model_config PYTORCH
   \<and> Call_adjust_model_to_task
        \<lparr>obj_id = 1, cls_name = ''XLMRobertaForSequenceClassification'', mstate = 0\<rparr>
        (example_model_config PYTORCH) example_task_config
      \<in> set (calls (load_model example_env (example_model_config JAX) example_task_config
            example_evaluation_config))
   \<and> framework (example_model_config SPACY) \<notin> {PYTORCH, JAX}
   \<and> config_after (load_model example_env (example_model_config SPACY) example_task_config
        example_evaluation_config) = example_model_config SPACY"
proof -
  have h: "\<And>m c t. fst (adjust_model_to_task example_env m c t) = c"
    by (simp add: example_env_def)
  have c: "Call_adjust_model_to_task
        \<lparr>obj_id = 1, cls_name = ''XLMRobertaForSequenceClassification'', mstate = 0\<rparr>
        (example_model_config PYTORCH) example_task_config
      \<in> set (calls (load_model example_env (example_model_config JAX) example_task_config
            example_evaluation_config))"
    by (simp add: loader_defs example_defs)
  show ?thesis
    using h c load_model_config_after [of example_env "example_model_config JAX"
        example_task_config example_evaluation_config]
      load_model_config_after [of example_env "example_model_config SPACY"
        example_task_config example_evaluation_config]
    by (simp add: example_model_config_def)
qed

text \<open>
  C9. The dictionary that \<^verbatim>\<open>load_spacy_model\<close> returns has the single key
  \<^verbatim>\<open>'model'\<close>, and the pipeline is loaded under the local name, the part of
  \<^verbatim>\<open>model_id\<close> after its last \<^verbatim>\<open>/\<close> (all of it when there is none).
\<close>

theorem load_spacy_model_result:
  assumes "snd (load_spacy_model env the_model_id) = Inr d"
  shows "dom d = {''model''}
     \<and> (\<exists>local_model_id.
          CHR ''/'' \<notin> set local_model_id
          \<and> (\<exists>pre. the_model_id = pre @ local_model_id \<and> (pre = [] \<or> last pre = CHR ''/''))
          \<and> Call_spacy_load local_model_id \<in> set (fst (load_spacy_model env the_model_id))
          \<and> (\<forall>n. Call_spacy_load n \<in> set (fst (load_spacy_model env the_model_id))
                \<longrightarrow> n = local_model_id)
          \<and> (\<exists>m. spacy_load env local_model_id = Inr m \<and> d ''model'' = Some (Model m)))"
proof -
  let ?l = "last (py_split CHR ''/'' the_model_id)"
  have 1: "dom d = {''model''}" "\<exists>m. spacy_load env ?l = Inr m \<and> d ''model'' = Some (Model m)"
    "Call_spacy_load ?l \<in> set (fst (load_spacy_model env the_model_id))"
    using load_spacy_model_Inr [OF assms] by (auto split: if_splits)
  have 2: "\<forall>n. Call_spacy_load n \<in> set (fst (load_spacy_model env the_model_id)) \<longrightarrow> n = ?l"
    using load_spacy_model_calls [of _ env the_model_id] by auto
  have 3: "CHR ''/'' \<notin> set ?l" by (rule last_py_split_no_sep)
  have 4: "\<exists>pre. the_model_id = pre @ ?l \<and> (pre = [] \<or> last pre = CHR ''/'')"
    by (rule last_py_split_suffix)
  from 1 2 3 4 show ?thesis by blast
qed

theorem load_spacy_model_result_witness:
  "\<exists>d. snd (load_spacy_model example_env ''org/da_core'') = Inr d \<and> dom d = {''model''}
       \<and> d ''model'' = Some (Model \<lparr>obj_id = 2, cls_name = ''Danish'', mstate = 0\<rparr>)
       \<and> Call_spacy_load ''da_core'' \<in> set (fst (load_spacy_model example_env ''org/da_core''))"
proof -
  let ?d = "[''model'' \<mapsto> Model \<lparr>obj_id = 2, cls_name = ''Danish'', mstate = 0\<rparr>]"
  have h: "snd (load_spacy_model example_env ''org/da_core'') = Inr ?d"
    by (simp add: loader_defs example_defs)
  have c: "Call_spacy_load ''da_core'' \<in> set (fst (load_spacy_model example_env ''org/da_core''))"
    by (simp add: loader_defs example_defs)
  from load_spacy_model_result [OF h] h c show ?thesis by simp
qed

text \<open>
  C10. \<^verbatim>\<open>ModelFetchFailed\<close> built with an empty message has the message
  \<^verbatim>\<open>Download of {model_id} from the Hugging Face Hub failed, with the following error message: {error_msg}.\<close>
  and a non-empty message is kept as it is; in both cases the exception stores the model
  id and the error message.
\<close>

theorem ModelFetchFailed_init_attributes:
  "mff_model_id (ModelFetchFailed_init the_model_id error_msg message) = the_model_id
   \<and> mff_error_msg (ModelFetchFailed_init the_model_id error_msg message) = error_msg
   \<and> mff_message (ModelFetchFailed_init the_model_id error_msg message) =
       (if message = []
        then ''Download of '' @ the_model_id
             @ '' from the Hugging Face Hub failed, with the following error message: ''
             @ error_msg @ ''.''
        else message)
   \<and> is_ModelFetchFailed (ModelFetchFailed_init the_model_id error_msg message)"
  by (simp add: ModelFetchFailed_init_def)

theorem ModelFetchFailed_init_attributes_witness:
  "mff_message (ModelFetchFailed_init ''org/da_core'' ''timeout'' [])
     = ''Download of org/da_core from the Hugging Face Hub failed, with the following error message: timeout.''
   \<and> mff_message (ModelFetchFailed_init ''org/da_core'' ''timeout'' ''gone'') = ''gone''
   \<and> mff_model_id (ModelFetchFailed_init ''org/da_core'' ''timeout'' ''gone'') = ''org/da_core''
   \<and> mff_error_msg (ModelFetchFailed_init ''org/da_core'' ''timeout'' ''gone'') = ''timeout''"
  using ModelFetchFailed_init_attributes [of "''org/da_core''" "''timeout''" "[]"]
    ModelFetchFailed_init_attributes [of "''org/da_core''" "''timeout''" "''gone''"]
  by simp

end
